theory Spec2Isabelle
  imports Main "HOL-Library.Char_ord" "HOL-Library.List_Lexorder"
    "HOL-Library.Product_Lexorder" "HOL-Library.Sublist"
begin

section \<open>The command-line front end \<^verbatim>\<open>openmw-mm-cli.py\<close>\<close>

text \<open>
  The script orchestrates objects of the library modules \<^verbatim>\<open>lib.omwconfig\<close>,
  \<^verbatim>\<open>lib.esm\<close>, \<^verbatim>\<open>lib.config\<close> and \<^verbatim>\<open>lib.core\<close>. The model keeps the
  control flow of the script as it is written. What the script does to the outside
  world (lines printed, files parsed, files written, calls into the library that
  change the configuration) is made explicit as a list of effects, in the order the
  script performs them. A \<^verbatim>\<open>raise SystemExit(n)\<close> is a value of the result type.
  The library calls are parameters of the model, bundled in an environment record.
\<close>

subsection \<open>Data\<close>

text \<open>A plugin object, read through \<^verbatim>\<open>get_name()\<close>, \<^verbatim>\<open>get_path()\<close>,
  \<^verbatim>\<open>is_enabled()\<close> and \<^verbatim>\<open>get_order()\<close>, the plugin's number in the load order,
  which \<^verbatim>\<open>list_plugins\<close> prints in front of the name of an enabled plugin.\<close>

record plugin =
  get_name :: string
  get_path :: string
  is_enabled :: bool
  get_order :: int

text \<open>A mod object (one \<^verbatim>\<open>data\<close> directory). \<^verbatim>\<open>get_plugins()\<close> may return
  \<^verbatim>\<open>None\<close> or an empty list; the script treats both alike (\<^verbatim>\<open>if plugins:\<close>), so
  both are the empty list here.\<close>

record omw_mod =
  get_mod_path :: string
  get_plugins :: "plugin list"

text \<open>The dictionary \<^verbatim>\<open>diff\<close> returned by \<^verbatim>\<open>merge_with\<close>: record type, then
  status, then entry name. A dictionary is represented by its items in the order in
  which \<^verbatim>\<open>keys()\<close> enumerates them; of the innermost dictionary the script only reads
  the keys.\<close>

type_synonym status_dict = "(string \<times> string list) list"
type_synonym diff_dict = "(string \<times> status_dict) list"

datatype effect =
    Print string
  | ParseRecords string
  | MergeWith string
  | EsmWrite string
  | PluginEnable string
  | PluginDisable string
  | ConfigRemove string string
  | ConfigWrite

datatype 'a outcome = SystemExit int | Returned 'a

text \<open>The library as the merge command sees it: \<^verbatim>\<open>ConfigFile(path).get_mods()\<close>,
  \<^verbatim>\<open>config.get("General", "never_merge")\<close>, \<^verbatim>\<open>core.get_base_dir()\<close>,
  \<^verbatim>\<open>Esm(path)\<close> followed by \<^verbatim>\<open>parse_records()\<close>, and \<^verbatim>\<open>merge_with\<close>, which
  updates the receiver in place and returns \<^verbatim>\<open>(diff, ndiff)\<close>; the model returns the
  updated receiver with them. \<^verbatim>\<open>ndiff\<close> is a number, tested by \<^verbatim>\<open>if ndiff:\<close>.\<close>

record 'e esm_env =
  get_mods :: "string \<Rightarrow> omw_mod list"
  never_merge :: string
  get_base_dir :: string
  Esm :: "string \<Rightarrow> 'e"
  merge_with :: "'e \<Rightarrow> 'e \<Rightarrow> 'e \<times> diff_dict \<times> int"

subsection \<open>String helpers of the Python runtime\<close>

text \<open>\<^verbatim>\<open>s.split(c)\<close> for a one-character separator: the empty string gives one empty
  field.\<close>

fun split :: "char \<Rightarrow> string \<Rightarrow> string list" where
  "split c [] = [[]]"
| "split c (x # xs) =
     (if x = c then [] # split c xs
      else (case split c xs of [] \<Rightarrow> [[x]] | w # ws \<Rightarrow> (x # w) # ws))"

text \<open>\<^verbatim>\<open>s.rstrip("\x00")\<close>: all trailing NUL characters are removed.\<close>

definition rstrip :: "char \<Rightarrow> string \<Rightarrow> string" where
  "rstrip c s = rev (dropWhile (\<lambda>x. x = c) (rev s))"

text \<open>\<^verbatim>\<open>os.path.join(a, b)\<close> of \<^verbatim>\<open>posixpath\<close>, for two components.\<close>

definition path_join :: "string \<Rightarrow> string \<Rightarrow> string" where
  "path_join a b =
     (if b \<noteq> [] \<and> hd b = CHR ''/'' then b
      else if a = [] \<or> last a = CHR ''/'' then a @ b
      else a @ ''/'' @ b)"

subsection \<open>The diff report of \<^verbatim>\<open>merge_lists\<close>\<close>

definition lname :: "string \<Rightarrow> string" where
  "lname rec = (if rec = ''LEVC'' then ''Leveled Creatures'' else ''Leveled Items'')"

text \<open>\<^verbatim>\<open>"\t ==== %s ====" % x\<close> and \<^verbatim>\<open>"\t\t%s" % name.rstrip("\x00")\<close>.\<close>

definition heading :: "string \<Rightarrow> string" where
  "heading x = CHR 0x09 # '' ==== '' @ x @ '' ===='' "

definition name_line :: "string \<Rightarrow> string" where
  "name_line name = [CHR 0x09, CHR 0x09] @ rstrip (CHR 0x00) name"

text \<open>The loop over \<^verbatim>\<open>diff[rec].keys()\<close>; \<open>printed\<close> is the flag of the source.\<close>

fun print_statuses :: "string \<Rightarrow> bool \<Rightarrow> status_dict \<Rightarrow> effect list" where
  "print_statuses ln printed [] = []"
| "print_statuses ln printed ((status, names) # rest) =
     (if names = [] then print_statuses ln printed rest
      else (if \<not> printed then [Print (heading ln)] else [])
           @ [Print (heading status)]
           @ map (\<lambda>name. Print (name_line name)) (sort names)
           @ print_statuses ln True rest)"

text \<open>The loop over \<^verbatim>\<open>diff.keys()\<close>.\<close>

fun print_diff :: "diff_dict \<Rightarrow> effect list" where
  "print_diff [] = []"
| "print_diff ((rec, statuses) # rest) =
     print_statuses (lname rec) False statuses @ print_diff rest"

subsection \<open>\<^verbatim>\<open>merge_lists\<close>\<close>

text \<open>The body of the innermost loop, for one plugin: the state is the document
  \<^verbatim>\<open>merged\<close> and the effects so far.\<close>

definition merge_plugin ::
  "'e esm_env \<Rightarrow> string list \<Rightarrow> 'e \<times> effect list \<Rightarrow> plugin \<Rightarrow> 'e \<times> effect list" where
  "merge_plugin env blacklist st plugin =
     (if get_name plugin \<notin> set blacklist \<and> is_enabled plugin then
        (let to_merge = Esm env (get_path plugin);
             (merged', diff, ndiff) = merge_with env (fst st) to_merge
         in (merged',
             snd st
             @ [Print (''Merging: '' @ get_name plugin),
                ParseRecords (get_path plugin),
                MergeWith (get_path plugin)]
             @ (if ndiff \<noteq> 0 then print_diff diff else [])))
      else st)"

fun merge_plugins ::
  "'e esm_env \<Rightarrow> string list \<Rightarrow> 'e \<times> effect list \<Rightarrow> plugin list \<Rightarrow> 'e \<times> effect list" where
  "merge_plugins env blacklist st [] = st"
| "merge_plugins env blacklist st (plugin # plugins) =
     merge_plugins env blacklist (merge_plugin env blacklist st plugin) plugins"

fun merge_mods ::
  "'e esm_env \<Rightarrow> string list \<Rightarrow> 'e \<times> effect list \<Rightarrow> omw_mod list \<Rightarrow> 'e \<times> effect list" where
  "merge_mods env blacklist st [] = st"
| "merge_mods env blacklist st (m # mods) =
     merge_mods env blacklist
       (if get_plugins m \<noteq> [] then merge_plugins env blacklist st (get_plugins m) else st)
       mods"

text \<open>The path of the document the merge starts from, and the output path when the
  caller's \<^verbatim>\<open>out\<close> is \<^verbatim>\<open>None\<close> or empty (\<^verbatim>\<open>if not out:\<close>).\<close>

definition empty_esp :: "'e esm_env \<Rightarrow> string" where
  "empty_esp env = path_join (get_base_dir env) ''./empty.esp''"

definition out_path :: "string option \<Rightarrow> string" where
  "out_path out =
     (case out of None \<Rightarrow> ''./Merged_Lists.esp''
      | Some p \<Rightarrow> if p = [] then ''./Merged_Lists.esp'' else p)"

text \<open>The result holds the effects in order and, when the function returns, the
  path and the document given to \<^verbatim>\<open>merged.write(out)\<close>.\<close>

definition merge_lists ::
  "'e esm_env \<Rightarrow> string \<Rightarrow> string option \<Rightarrow> effect list \<times> (string \<times> 'e) outcome" where
  "merge_lists env omw_cfg out =
     (let mods = get_mods env omw_cfg
      in if mods = [] then ([Print ''Nothing to merge!''], SystemExit 1)
         else
           (let blacklist = split (CHR '','') (never_merge env);
                merged = Esm env (empty_esp env);
                (merged', effects) =
                   merge_mods env blacklist (merged, [ParseRecords (empty_esp env)]) mods
            in (effects @ [EsmWrite (out_path out)], Returned (out_path out, merged'))))"

subsection \<open>\<^verbatim>\<open>enable_plugin\<close>, \<^verbatim>\<open>disable_plugin\<close> and \<^verbatim>\<open>clean_mods\<close>\<close>

text \<open>A \<^verbatim>\<open>ConfigEntry\<close> is a key and a value.\<close>

type_synonym ConfigEntry = "string \<times> string"

text \<open>The library as the configuration commands see it, over a configuration object
  of type \<open>'c\<close>: \<^verbatim>\<open>ConfigFile(path)\<close>, \<^verbatim>\<open>core.get_full_path\<close>,
  \<^verbatim>\<open>core.find_plugin\<close> (\<^verbatim>\<open>None\<close> when there is no such plugin),
  \<^verbatim>\<open>plugin.enable()\<close> and \<^verbatim>\<open>plugin.disable()\<close> (they change the configuration
  object), \<^verbatim>\<open>omw_cfg.find_key\<close>, \<^verbatim>\<open>omw_cfg.remove\<close>, \<^verbatim>\<open>os.path.exists\<close> and
  \<^verbatim>\<open>core.get_orphaned_plugins\<close>. \<^verbatim>\<open>omw_cfg.write()\<close> is the effect
  \<^const>\<open>ConfigWrite\<close>; it is the only call of these commands that stores the
  configuration file.\<close>

record 'c cfg_env =
  ConfigFile :: "string \<Rightarrow> 'c"
  get_full_path :: "string \<Rightarrow> string"
  find_plugin :: "'c \<Rightarrow> string \<Rightarrow> plugin option"
  plugin_enable :: "plugin \<Rightarrow> 'c \<Rightarrow> 'c"
  plugin_disable :: "plugin \<Rightarrow> 'c \<Rightarrow> 'c"
  find_key :: "'c \<Rightarrow> string \<Rightarrow> ConfigEntry list"
  remove_entry :: "ConfigEntry \<Rightarrow> 'c \<Rightarrow> 'c"
  path_exists :: "string \<Rightarrow> bool"
  get_orphaned_plugins :: "'c \<Rightarrow> string list"

definition enable_plugin ::
  "'c cfg_env \<Rightarrow> string \<Rightarrow> string \<Rightarrow> effect list \<times> 'c outcome" where
  "enable_plugin env omw_cfg plugin_name =
     (let cfg = ConfigFile env (get_full_path env omw_cfg)
      in case find_plugin env cfg plugin_name of
           None \<Rightarrow> ([Print (''Could not find plugin '' @ plugin_name @ ''.'')], SystemExit 1)
         | Some plugin \<Rightarrow>
             if is_enabled plugin
             then ([Print (''Plugin '' @ plugin_name @ '' is already enabled.'')], SystemExit 1)
             else ([Print (''Enabling '' @ plugin_name @ ''.''),
                    PluginEnable (get_name plugin),
                    ConfigWrite],
                   Returned (plugin_enable env plugin cfg)))"

definition disable_plugin ::
  "'c cfg_env \<Rightarrow> string \<Rightarrow> string \<Rightarrow> effect list \<times> 'c outcome" where
  "disable_plugin env omw_cfg plugin_name =
     (let cfg = ConfigFile env (get_full_path env omw_cfg)
      in case find_plugin env cfg plugin_name of
           None \<Rightarrow> ([Print (''Could not find plugin '' @ plugin_name @ ''.'')], SystemExit 1)
         | Some plugin \<Rightarrow>
             ((if \<not> is_enabled plugin
               then [Print (''Plugin '' @ plugin_name @ '' is already enabled.'')] else [])
              @ [Print (''Disabling '' @ plugin_name),
                 PluginDisable (get_name plugin),
                 ConfigWrite],
              Returned (plugin_disable env plugin cfg)))"

text \<open>The first loop of \<^verbatim>\<open>clean_mods\<close>, over the list \<^verbatim>\<open>find_key("data")\<close> returned
  before the loop starts. The state is the configuration object, \<^verbatim>\<open>bad_mods\<close> and
  the effects so far.\<close>

fun remove_bad_mods ::
  "'c cfg_env \<Rightarrow> 'c \<times> ConfigEntry list \<times> effect list \<Rightarrow> ConfigEntry list
     \<Rightarrow> 'c \<times> ConfigEntry list \<times> effect list" where
  "remove_bad_mods env st [] = st"
| "remove_bad_mods env (cfg, bad_mods, effects) (entry # rest) =
     remove_bad_mods env
       (if \<not> path_exists env (snd entry)
        then (remove_entry env entry cfg,
              bad_mods @ [entry],
              effects @ [Print (''Removing data entry for '' @ snd entry),
                         ConfigRemove (fst entry) (snd entry)])
        else (cfg, bad_mods, effects))
       rest"

text \<open>The second loop, over \<^verbatim>\<open>bad_plugins\<close>.\<close>

fun remove_bad_plugins ::
  "'c cfg_env \<Rightarrow> 'c \<times> effect list \<Rightarrow> string list \<Rightarrow> 'c \<times> effect list" where
  "remove_bad_plugins env st [] = st"
| "remove_bad_plugins env (cfg, effects) (plugin # rest) =
     remove_bad_plugins env
       (remove_entry env (''content'', plugin) cfg,
        effects @ [Print (''Removing content entry for '' @ plugin),
                   ConfigRemove ''content'' plugin])
       rest"

definition clean_mods :: "'c cfg_env \<Rightarrow> string \<Rightarrow> effect list \<times> 'c" where
  "clean_mods env omw_cfg =
     (let cfg = ConfigFile env (get_full_path env omw_cfg);
          (cfg1, bad_mods, effects1) =
             remove_bad_mods env (cfg, [], []) (find_key env cfg ''data'');
          effects2 =
             effects1 @ (if bad_mods = [] then [Print ''No invalid data entries found!''] else []);
          bad_plugins = get_orphaned_plugins env cfg1;
          (cfg2, effects3) =
             (if bad_plugins \<noteq> [] then remove_bad_plugins env (cfg1, effects2) bad_plugins
              else (cfg1, effects2 @ [Print ''No invalid content entries found!'']))
      in (effects3 @ (if bad_mods \<noteq> [] \<or> bad_plugins \<noteq> [] then [ConfigWrite] else []),
          cfg2))"

section \<open>The leveled-list codec\<close>

text \<open>Modelled from the spec: the codec lives in \<^verbatim>\<open>lib.esm\<close>, which is not among the
  sources; only its caller \<^verbatim>\<open>merge_lists\<close> is. An entry is a reference identifier
  and a level; a leveled list has an identifier, a kind, the two scalar flags and its
  entries in the order of the input.\<close>

datatype list_kind = Item | Creature

type_synonym Entry = "string \<times> int"

record LeveledList =
  list_identifier :: string
  kind :: list_kind
  chance_none :: int
  calculate_from_all_levels :: bool
  entries :: "Entry list"

text \<open>Modelled from the spec: the payload of an encoded leveled-list record, as the
  sequence of its fields: identifier, kind, flags, and ``a count prefix followed by
  count (reference identifier, level) pairs''. The spec fixes no width for a field, so
  a field is kept as its value; equal payloads are equal byte strings under any fixed
  layout of the fields.\<close>

record list_payload =
  payload_identifier :: string
  payload_kind :: list_kind
  payload_chance_none :: int
  payload_calculate_from_all_levels :: bool
  payload_count :: nat
  payload_entries :: "Entry list"

text \<open>Modelled from the spec: the one failure of the codec.\<close>

datatype codec_error = CorruptListRecord

text \<open>Modelled from the spec: ``the valid positive-integer range'' of a level; its
  upper end is not given by the spec and is a parameter.\<close>

definition valid_level :: "int \<Rightarrow> int \<Rightarrow> bool" where
  "valid_level max_level level = (0 < level \<and> level \<le> max_level)"

text \<open>Modelled from the spec: \<^verbatim>\<open>decode\<close> ``extracts identifier, kind, flags, and the
  count-prefixed Entry list'' and fails with \<^verbatim>\<open>CorruptListRecord\<close> ``if the declared
  entry count does not match available bytes, or an entry level is out of the valid
  positive-integer range''.\<close>

definition decode :: "int \<Rightarrow> list_payload \<Rightarrow> codec_error + LeveledList" where
  "decode max_level p =
     (if payload_count p \<noteq> length (payload_entries p) then Inl CorruptListRecord
      else if \<not> list_all (\<lambda>e. valid_level max_level (snd e)) (payload_entries p)
      then Inl CorruptListRecord
      else Inr \<lparr>list_identifier = payload_identifier p,
                kind = payload_kind p,
                chance_none = payload_chance_none p,
                calculate_from_all_levels = payload_calculate_from_all_levels p,
                entries = payload_entries p\<rparr>)"

text \<open>Modelled from the spec: \<^verbatim>\<open>encode\<close> serializes the entries ``in a canonical order
  (sorted by reference identifier, then level) regardless of input order''. The order
  on pairs is the lexicographic one, the order on identifiers that of their bytes.\<close>

definition encode :: "LeveledList \<Rightarrow> list_payload" where
  "encode l =
     \<lparr>payload_identifier = list_identifier l,
      payload_kind = kind l,
      payload_chance_none = chance_none l,
      payload_calculate_from_all_levels = calculate_from_all_levels l,
      payload_count = length (entries l),
      payload_entries = sort (entries l)\<rparr>"

text \<open>Modelled from the spec: ``sorted by reference identifier, then level'', written
  out on two entries.\<close>

definition entry_le :: "Entry \<Rightarrow> Entry \<Rightarrow> bool" where
  "entry_le a b = (fst a < fst b \<or> (fst a = fst b \<and> snd a \<le> snd b))"

section \<open>The merge engine\<close>








section \<open>Vocabulary of the statements\<close>

text \<open>The plugins of the configuration in the order of the script's two loops, the
  condition under which the script merges a plugin, one step of the fold, and the
  projections of an effect list that the statements speak about.\<close>

definition listed_plugins :: "omw_mod list \<Rightarrow> plugin list" where
  "listed_plugins mods = concat (map get_plugins mods)"

definition is_merged :: "string list \<Rightarrow> plugin \<Rightarrow> bool" where
  "is_merged blacklist plugin = (get_name plugin \<notin> set blacklist \<and> is_enabled plugin)"

definition blacklist_of :: "'e esm_env \<Rightarrow> string list" where
  "blacklist_of env = split (CHR '','') (never_merge env)"

definition fold_in :: "'e esm_env \<Rightarrow> 'e \<Rightarrow> plugin \<Rightarrow> 'e" where
  "fold_in env merged plugin = fst (merge_with env merged (Esm env (get_path plugin)))"

fun merge_calls :: "effect list \<Rightarrow> string list" where
  "merge_calls [] = []"
| "merge_calls (MergeWith p # es) = p # merge_calls es"
| "merge_calls (e # es) = merge_calls es"

fun is_esm_effect :: "effect \<Rightarrow> bool" where
  "is_esm_effect (ParseRecords p) = True"
| "is_esm_effect (MergeWith p) = True"
| "is_esm_effect (EsmWrite p) = True"
| "is_esm_effect e = False"

text \<open>The configuration with every plugin that the script skips taken out.\<close>

definition only_merged :: "string list \<Rightarrow> omw_mod list \<Rightarrow> omw_mod list" where
  "only_merged blacklist mods =
     map (\<lambda>m. m\<lparr>get_plugins := filter (is_merged blacklist) (get_plugins m)\<rparr>) mods"

text \<open>A diff with its empty categories taken out, and the lines of one non-empty
  category.\<close>

definition nonempty_statuses :: "status_dict \<Rightarrow> status_dict" where
  "nonempty_statuses statuses = filter (\<lambda>sn. snd sn \<noteq> []) statuses"

definition status_lines :: "string \<times> string list \<Rightarrow> effect list" where
  "status_lines sn = Print (heading (fst sn)) # map (\<lambda>name. Print (name_line name)) (sort (snd sn))"

text \<open>The default output path that the docstring of \<^verbatim>\<open>merge_lists\<close> and the help
  text of the \<^verbatim>\<open>--output\<close> option state.\<close>

definition documented_default :: string where
  "documented_default = ''./merged.esp''"



section \<open>A small installation\<close>

text \<open>Three mods with four plugins: one plugin is disabled, one is named in
  \<^verbatim>\<open>never_merge\<close>. A document is the list of the files that went into it, so that
  \<^verbatim>\<open>merge_with\<close> records what was merged into what; only \<^verbatim>\<open>Loot.esp\<close> reports a
  diff.\<close>

definition morrowind :: plugin where
  "morrowind =
     \<lparr>get_name = ''Morrowind.esm'', get_path = ''/d/Morrowind.esm'', is_enabled = True,
      get_order = 0\<rparr>"

definition tribunal :: plugin where
  "tribunal =
     \<lparr>get_name = ''Tribunal.esm'', get_path = ''/d/Tribunal.esm'', is_enabled = True,
      get_order = 1\<rparr>"

definition rats :: plugin where
  "rats =
     \<lparr>get_name = ''Rats.esp'', get_path = ''/m/Rats.esp'', is_enabled = False, get_order = 0\<rparr>"

definition loot :: plugin where
  "loot =
     \<lparr>get_name = ''Loot.esp'', get_path = ''/m/Loot.esp'', is_enabled = True, get_order = 2\<rparr>"

definition demo_mods :: "omw_mod list" where
  "demo_mods =
     [\<lparr>get_mod_path = ''/d'', get_plugins = [morrowind, tribunal]\<rparr>,
      \<lparr>get_mod_path = ''/t'', get_plugins = []\<rparr>,
      \<lparr>get_mod_path = ''/m'', get_plugins = [rats, loot]\<rparr>]"

definition demo_statuses :: status_dict where
  "demo_statuses = [(''Removed'', []), (''Added'', [''rat_b'' @ [CHR 0x00], ''rat_a''])]"

definition demo_diff :: diff_dict where
  "demo_diff = [(''LEVI'', [(''Added'', []), (''Removed'', [])]), (''LEVC'', demo_statuses)]"

definition demo_env :: "string list esm_env" where
  "demo_env =
     \<lparr>get_mods = (\<lambda>cfg. if cfg = ''openmw.cfg'' then demo_mods else []),
      never_merge = ''Tribunal.esm,Merged_Lists.esp'',
      get_base_dir = ''/opt/omw'',
      Esm = (\<lambda>p. [p]),
      merge_with = (\<lambda>merged to_merge.
         if to_merge = [''/m/Loot.esp''] then (merged @ to_merge, demo_diff, 2)
         else (merged @ to_merge, [], 0))\<rparr>"

text \<open>A configuration object is its list of entries; a plugin is enabled when it has
  a \<^verbatim>\<open>content\<close> entry.\<close>

definition demo_cfg :: "ConfigEntry list" where
  "demo_cfg = [(''data'', ''/d''), (''content'', ''Morrowind.esm'')]"

definition demo_cfg_env :: "ConfigEntry list cfg_env" where
  "demo_cfg_env =
     \<lparr>ConfigFile = (\<lambda>p. demo_cfg),
      get_full_path = (\<lambda>p. ''/home/u/'' @ p),
      find_plugin = (\<lambda>cfg n.
         if n = ''Morrowind.esm'' \<or> n = ''Loot.esp''
         then Some \<lparr>get_name = n, get_path = ''/d/'' @ n,
                    is_enabled = ((''content'', n) \<in> set cfg), get_order = 0\<rparr>
         else None),
      plugin_enable = (\<lambda>p cfg. cfg @ [(''content'', get_name p)]),
      plugin_disable = (\<lambda>p cfg. removeAll (''content'', get_name p) cfg),
      find_key = (\<lambda>cfg k. filter (\<lambda>e. fst e = k) cfg),
      remove_entry = removeAll,
      path_exists = (\<lambda>p. p = ''/d''),
      get_orphaned_plugins = (\<lambda>cfg. [])\<rparr>"

definition demo_list :: LeveledList where
  "demo_list =
     \<lparr>list_identifier = ''creature_rats'', kind = Creature, chance_none = 0,
      calculate_from_all_levels = False,
      entries = [(''ratB'', 2), (''ratA'', 3), (''ratA'', 1)]\<rparr>"

definition demo_list' :: LeveledList where
  "demo_list' = demo_list\<lparr>entries := [(''ratA'', 1), (''ratB'', 2), (''ratA'', 3)]\<rparr>"








section \<open>The loops of \<^verbatim>\<open>merge_lists\<close>\<close>

text \<open>The report lines are prints only; a plugin that fails the condition of the
  inner loop leaves the state as it is; both loops together are one left fold over the
  listed plugins.\<close>

lemma merge_calls_append: "merge_calls (xs @ ys) = merge_calls xs @ merge_calls ys"
  by (induction xs rule: merge_calls.induct) simp_all

lemma merge_calls_map_Print: "merge_calls (map (\<lambda>x. Print (f x)) xs) = []"
  by (induction xs) simp_all

lemma merge_calls_print_statuses: "merge_calls (print_statuses ln printed statuses) = []"
  by (induction ln printed statuses rule: print_statuses.induct)
     (simp_all add: merge_calls_append merge_calls_map_Print)

lemma merge_calls_print_diff: "merge_calls (print_diff d) = []"
  by (induction d rule: print_diff.induct)
     (simp_all add: merge_calls_append merge_calls_print_statuses)




lemma merge_plugin_skip: "\<not> is_merged blacklist p \<Longrightarrow> merge_plugin env blacklist st p = st"
  by (auto simp: merge_plugin_def is_merged_def)

lemma fst_merge_plugin:
  "is_merged blacklist p \<Longrightarrow> fst (merge_plugin env blacklist st p) = fold_in env (fst st) p"
  by (simp add: merge_plugin_def is_merged_def fold_in_def Let_def split: prod.splits)

lemma merge_calls_merge_plugin:
  "is_merged blacklist p \<Longrightarrow>
   merge_calls (snd (merge_plugin env blacklist st p)) = merge_calls (snd st) @ [get_path p]"
  by (simp add: merge_plugin_def is_merged_def Let_def merge_calls_append
      merge_calls_print_diff split: prod.splits)


lemma merge_plugin_extends: "\<exists>rest. snd (merge_plugin env blacklist st p) = snd st @ rest"
  by (simp add: merge_plugin_def Let_def split: prod.splits)

lemma merge_plugins_append:
  "merge_plugins env blacklist st (ps @ qs) =
     merge_plugins env blacklist (merge_plugins env blacklist st ps) qs"
  by (induction ps arbitrary: st) simp_all

lemma merge_mods_append:
  "merge_mods env blacklist st (ms @ ns) =
     merge_mods env blacklist (merge_mods env blacklist st ms) ns"
  by (induction ms arbitrary: st) simp_all

lemma merge_mods_listed:
  "merge_mods env blacklist st mods = merge_plugins env blacklist st (listed_plugins mods)"
  by (induction mods arbitrary: st) (simp_all add: listed_plugins_def merge_plugins_append)

lemma merge_plugins_filter:
  "merge_plugins env blacklist st (filter (is_merged blacklist) ps) =
     merge_plugins env blacklist st ps"
  by (induction ps arbitrary: st) (simp_all add: merge_plugin_skip)

lemma fst_merge_plugins:
  "fst (merge_plugins env blacklist st ps) =
     foldl (fold_in env) (fst st) (filter (is_merged blacklist) ps)"
  by (induction ps arbitrary: st) (simp_all add: merge_plugin_skip fst_merge_plugin)

lemma merge_calls_merge_plugins:
  "merge_calls (snd (merge_plugins env blacklist st ps)) =
     merge_calls (snd st) @ map get_path (filter (is_merged blacklist) ps)"
  by (induction ps arbitrary: st) (simp_all add: merge_plugin_skip merge_calls_merge_plugin)


lemma merge_plugins_extends: "\<exists>rest. snd (merge_plugins env blacklist st ps) = snd st @ rest"
proof (induction ps arbitrary: st)
  case Nil
  show ?case by simp
next
  case (Cons p ps)
  obtain m1 where m1: "snd (merge_plugin env blacklist st p) = snd st @ m1"
    using merge_plugin_extends by blast
  obtain m2 where "snd (merge_plugins env blacklist (merge_plugin env blacklist st p) ps) =
      snd (merge_plugin env blacklist st p) @ m2"
    using Cons.IH by blast
  with m1 show ?case by simp
qed

lemma merge_lists_unfold:
  "merge_lists env omw_cfg out =
     (if get_mods env omw_cfg = [] then ([Print ''Nothing to merge!''], SystemExit 1)
      else (snd (merge_plugins env (blacklist_of env)
                   (Esm env (empty_esp env), [ParseRecords (empty_esp env)])
                   (listed_plugins (get_mods env omw_cfg)))
            @ [EsmWrite (out_path out)],
            Returned (out_path out,
              fst (merge_plugins env (blacklist_of env)
                     (Esm env (empty_esp env), [ParseRecords (empty_esp env)])
                     (listed_plugins (get_mods env omw_cfg))))))"
  by (simp add: merge_lists_def Let_def blacklist_of_def merge_mods_listed split: prod.splits)

lemma merge_plugins_get_mods_update:
  "merge_plugins (env\<lparr>get_mods := g\<rparr>) blacklist st ps = merge_plugins env blacklist st ps"
  by (induction ps arbitrary: st) (simp_all add: merge_plugin_def)

lemma listed_only_merged:
  "listed_plugins (only_merged blacklist mods) = filter (is_merged blacklist) (listed_plugins mods)"
  by (induction mods) (simp_all add: listed_plugins_def only_merged_def)

section \<open>The engine's accumulators\<close>









section \<open>Properties of \<^verbatim>\<open>merge_lists\<close>\<close>



text \<open>C2. A listed plugin is folded in exactly when it is enabled and its name is not
  among the comma-separated fields of \<^verbatim>\<open>never_merge\<close>: for such a plugin the loop body
  replaces the merged document by what \<^verbatim>\<open>merge_with\<close> makes of it and the plugin's
  parsed file, for any other plugin it leaves the state as it is. So the calls of
  \<^verbatim>\<open>merge_with\<close> are, in order, exactly those plugins, the document written is
  \<^verbatim>\<open>empty.esp\<close> with exactly those plugins folded in, and taking every other plugin out
  of the configuration changes neither the effects nor the document written.\<close>

theorem merge_lists_merges_enabled_not_blacklisted:
  "(get_name plugin \<notin> set blacklist \<and> is_enabled plugin \<longrightarrow>
      fst (merge_plugin env blacklist (merged, effects) plugin) =
        fst (merge_with env merged (Esm env (get_path plugin))))
   \<and> (\<not> (get_name plugin \<notin> set blacklist \<and> is_enabled plugin) \<longrightarrow>
      merge_plugin env blacklist (merged, effects) plugin = (merged, effects))
   \<and> merge_calls (fst (merge_lists env omw_cfg out)) =
     map get_path
       (filter (\<lambda>plugin. get_name plugin \<notin> set (split (CHR '','') (never_merge env))
                          \<and> is_enabled plugin)
          (listed_plugins (get_mods env omw_cfg)))
   \<and> snd (merge_lists env omw_cfg out) =
     (if get_mods env omw_cfg = [] then SystemExit 1
      else Returned (out_path out,
        foldl (\<lambda>merged plugin. fst (merge_with env merged (Esm env (get_path plugin))))
          (Esm env (path_join (get_base_dir env) ''./empty.esp''))
          (filter (\<lambda>plugin. get_name plugin \<notin> set (split (CHR '','') (never_merge env))
                             \<and> is_enabled plugin)
             (listed_plugins (get_mods env omw_cfg)))))
   \<and> merge_lists (env\<lparr>get_mods := \<lambda>c. only_merged (blacklist_of env) (get_mods env c)\<rparr>)
        omw_cfg out
     = merge_lists env omw_cfg out"
proof (intro conjI impI)
  assume "get_name plugin \<notin> set blacklist \<and> is_enabled plugin"
  then show "fst (merge_plugin env blacklist (merged, effects) plugin) =
        fst (merge_with env merged (Esm env (get_path plugin)))"
    by (simp add: fst_merge_plugin is_merged_def fold_in_def)
next
  assume "\<not> (get_name plugin \<notin> set blacklist \<and> is_enabled plugin)"
  then show "merge_plugin env blacklist (merged, effects) plugin = (merged, effects)"
    by (simp add: merge_plugin_skip is_merged_def)
next
  have sel: "(\<lambda>plugin. get_name plugin \<notin> set (split (CHR '','') (never_merge env))
                          \<and> is_enabled plugin) = is_merged (blacklist_of env)"
    by (simp add: is_merged_def blacklist_of_def fun_eq_iff)
  have step: "(\<lambda>merged plugin. fst (merge_with env merged (Esm env (get_path plugin)))) =
      fold_in env"
    by (simp add: fold_in_def fun_eq_iff)
  show "merge_calls (fst (merge_lists env omw_cfg out)) =
     map get_path
       (filter (\<lambda>plugin. get_name plugin \<notin> set (split (CHR '','') (never_merge env))
                          \<and> is_enabled plugin)
          (listed_plugins (get_mods env omw_cfg)))"
    unfolding sel
    by (simp add: merge_lists_unfold merge_calls_append merge_calls_merge_plugins
        listed_plugins_def)
  show "snd (merge_lists env omw_cfg out) =
     (if get_mods env omw_cfg = [] then SystemExit 1
      else Returned (out_path out,
        foldl (\<lambda>merged plugin. fst (merge_with env merged (Esm env (get_path plugin))))
          (Esm env (path_join (get_base_dir env) ''./empty.esp''))
          (filter (\<lambda>plugin. get_name plugin \<notin> set (split (CHR '','') (never_merge env))
                             \<and> is_enabled plugin)
             (listed_plugins (get_mods env omw_cfg)))))"
    unfolding sel step
    by (simp add: merge_lists_unfold fst_merge_plugins empty_esp_def)
  let ?env' = "env\<lparr>get_mods := \<lambda>c. only_merged (blacklist_of env) (get_mods env c)\<rparr>"
  have b: "blacklist_of ?env' = blacklist_of env" and e: "empty_esp ?env' = empty_esp env"
    and E: "Esm ?env' = Esm env"
    by (simp_all add: blacklist_of_def empty_esp_def)
  have n: "(get_mods ?env' omw_cfg = []) = (get_mods env omw_cfg = [])"
    by (simp add: only_merged_def)
  have l: "listed_plugins (get_mods ?env' omw_cfg) =
      filter (is_merged (blacklist_of env)) (listed_plugins (get_mods env omw_cfg))"
    by (simp add: listed_only_merged)
  show "merge_lists ?env' omw_cfg out = merge_lists env omw_cfg out"
    unfolding merge_lists_unfold [of ?env'] merge_lists_unfold [of env] b e E n l
      merge_plugins_get_mods_update merge_plugins_filter ..
qed

text \<open>In the small installation a document is the list of the files that went into it:
  of the four listed plugins the enabled and not excluded two are folded into
  \<^verbatim>\<open>empty.esp\<close>; \<^verbatim>\<open>Tribunal.esm\<close> is excluded and \<^verbatim>\<open>Rats.esp\<close> is disabled.\<close>

theorem merge_lists_merges_enabled_not_blacklisted_witness:
  "map get_name (listed_plugins (get_mods demo_env ''openmw.cfg'')) =
     [''Morrowind.esm'', ''Tribunal.esm'', ''Rats.esp'', ''Loot.esp'']
   \<and> merge_calls (fst (merge_lists demo_env ''openmw.cfg'' None)) =
     [''/d/Morrowind.esm'', ''/m/Loot.esp'']
   \<and> snd (merge_lists demo_env ''openmw.cfg'' None) =
     Returned (''./Merged_Lists.esp'',
       [''/opt/omw/./empty.esp'', ''/d/Morrowind.esm'', ''/m/Loot.esp''])
   \<and> fst (merge_plugin demo_env [''Tribunal.esm''] ([''/opt/omw/./empty.esp''], []) morrowind) =
     [''/opt/omw/./empty.esp'', ''/d/Morrowind.esm'']
   \<and> merge_plugin demo_env [''Tribunal.esm''] ([''/opt/omw/./empty.esp''], []) tribunal =
     ([''/opt/omw/./empty.esp''], [])
   \<and> merge_plugin demo_env [''Tribunal.esm''] ([''/opt/omw/./empty.esp''], []) rats =
     ([''/opt/omw/./empty.esp''], [])"
proof -
  note t = merge_lists_merges_enabled_not_blacklisted
  have l: "map get_name (listed_plugins (get_mods demo_env ''openmw.cfg'')) =
     [''Morrowind.esm'', ''Tribunal.esm'', ''Rats.esp'', ''Loot.esp'']"
    by code_simp
  have r: "map get_path
       (filter (\<lambda>plugin. get_name plugin \<notin> set (split (CHR '','') (never_merge demo_env))
                          \<and> is_enabled plugin)
          (listed_plugins (get_mods demo_env ''openmw.cfg''))) =
       [''/d/Morrowind.esm'', ''/m/Loot.esp'']"
    by code_simp
  have d: "(if get_mods demo_env ''openmw.cfg'' = [] then SystemExit 1
      else Returned (out_path None,
        foldl (\<lambda>merged plugin. fst (merge_with demo_env merged (Esm demo_env (get_path plugin))))
          (Esm demo_env (path_join (get_base_dir demo_env) ''./empty.esp''))
          (filter (\<lambda>plugin. get_name plugin \<notin> set (split (CHR '','') (never_merge demo_env))
                             \<and> is_enabled plugin)
             (listed_plugins (get_mods demo_env ''openmw.cfg''))))) =
     Returned (''./Merged_Lists.esp'',
       [''/opt/omw/./empty.esp'', ''/d/Morrowind.esm'', ''/m/Loot.esp''])"
    by code_simp
  have m: "get_name morrowind \<notin> set [''Tribunal.esm''] \<and> is_enabled morrowind"
    by code_simp
  have mw: "fst (merge_with demo_env [''/opt/omw/./empty.esp''] (Esm demo_env (get_path morrowind))) =
     [''/opt/omw/./empty.esp'', ''/d/Morrowind.esm'']"
    by code_simp
  have tr: "\<not> (get_name tribunal \<notin> set [''Tribunal.esm''] \<and> is_enabled tribunal)"
    by code_simp
  have ra: "\<not> (get_name rats \<notin> set [''Tribunal.esm''] \<and> is_enabled rats)"
    by code_simp
  from t [of morrowind "[''Tribunal.esm'']" demo_env "[''/opt/omw/./empty.esp'']" "[]"
      "''openmw.cfg''" None] r
  have 1: "merge_calls (fst (merge_lists demo_env ''openmw.cfg'' None)) =
     [''/d/Morrowind.esm'', ''/m/Loot.esp'']"
    by simp
  from t [of morrowind "[''Tribunal.esm'']" demo_env "[''/opt/omw/./empty.esp'']" "[]"
      "''openmw.cfg''" None] d
  have 2: "snd (merge_lists demo_env ''openmw.cfg'' None) =
     Returned (''./Merged_Lists.esp'',
       [''/opt/omw/./empty.esp'', ''/d/Morrowind.esm'', ''/m/Loot.esp''])"
    by simp
  from t [of morrowind "[''Tribunal.esm'']" demo_env "[''/opt/omw/./empty.esp'']" "[]"] m mw
  have 3: "fst (merge_plugin demo_env [''Tribunal.esm''] ([''/opt/omw/./empty.esp''], []) morrowind) =
     [''/opt/omw/./empty.esp'', ''/d/Morrowind.esm'']"
    by simp
  from t [of tribunal "[''Tribunal.esm'']" demo_env "[''/opt/omw/./empty.esp'']" "[]"] tr
  have 4: "merge_plugin demo_env [''Tribunal.esm''] ([''/opt/omw/./empty.esp''], []) tribunal =
     ([''/opt/omw/./empty.esp''], [])"
    by blast
  from t [of rats "[''Tribunal.esm'']" demo_env "[''/opt/omw/./empty.esp'']" "[]"] ra
  have 5: "merge_plugin demo_env [''Tribunal.esm''] ([''/opt/omw/./empty.esp''], []) rats =
     ([''/opt/omw/./empty.esp''], [])"
    by blast
  from l 1 2 3 4 5 show ?thesis
    by blast
qed




text \<open>C5. With no output path given, \<^verbatim>\<open>merge_lists\<close> writes to
  \<^verbatim>\<open>./Merged_Lists.esp\<close>, which is not the default \<^verbatim>\<open>./merged.esp\<close> that its docstring
  and the help text of \<^verbatim>\<open>--output\<close> state.\<close>

theorem merge_lists_default_output:
  assumes "get_mods env omw_cfg \<noteq> []"
  shows "last (fst (merge_lists env omw_cfg None)) = EsmWrite ''./Merged_Lists.esp''
       \<and> (\<exists>merged. snd (merge_lists env omw_cfg None) = Returned (''./Merged_Lists.esp'', merged))
       \<and> ''./Merged_Lists.esp'' \<noteq> documented_default"
  using assms by (simp add: merge_lists_unfold out_path_def documented_default_def)

text \<open>In the small installation nothing is written to the documented default.\<close>

theorem merge_lists_default_output_witness:
  "get_mods demo_env ''openmw.cfg'' \<noteq> [] \<and>
   last (fst (merge_lists demo_env ''openmw.cfg'' None)) = EsmWrite ''./Merged_Lists.esp'' \<and>
   EsmWrite documented_default \<notin> set (fst (merge_lists demo_env ''openmw.cfg'' None))"
proof -
  have h: "get_mods demo_env ''openmw.cfg'' \<noteq> []"
    by code_simp
  have n: "EsmWrite documented_default \<notin> set (fst (merge_lists demo_env ''openmw.cfg'' None))"
    by code_simp
  from merge_lists_default_output [OF h] n h show ?thesis
    by simp
qed

text \<open>C8. When the configuration lists no mods, \<^verbatim>\<open>merge_lists\<close> prints
  \<^verbatim>\<open>Nothing to merge!\<close> and exits with status 1; that line is its only effect, so no
  file is parsed and none is written.\<close>

theorem merge_lists_nothing_to_merge:
  assumes "get_mods env omw_cfg = []"
  shows "merge_lists env omw_cfg out = ([Print ''Nothing to merge!''], SystemExit 1)
       \<and> filter is_esm_effect (fst (merge_lists env omw_cfg out)) = []"
  using assms by (simp add: merge_lists_def)

text \<open>A configuration path for which the small installation lists no mods.\<close>

theorem merge_lists_nothing_to_merge_witness:
  "get_mods demo_env ''other.cfg'' = [] \<and>
   merge_lists demo_env ''other.cfg'' (Some ''out.esp'') =
     ([Print ''Nothing to merge!''], SystemExit 1)"
proof -
  have h: "get_mods demo_env ''other.cfg'' = []"
    by code_simp
  from merge_lists_nothing_to_merge [OF h, of "Some ''out.esp''"] h show ?thesis
    by simp
qed

section \<open>Properties of the diff report\<close>

text \<open>The lines of a block are the label of the list kind, unless nothing or something
  earlier was printed, and then the lines of each non-empty category.\<close>

lemma print_statuses_nonempty:
  "print_statuses ln printed statuses =
     (if printed \<or> nonempty_statuses statuses = [] then [] else [Print (heading ln)])
     @ concat (map status_lines (nonempty_statuses statuses))"
  by (induction ln printed statuses rule: print_statuses.induct)
     (simp_all add: nonempty_statuses_def status_lines_def)

lemma nonempty_statuses_all_empty:
  "list_all (\<lambda>sn. snd sn = []) statuses \<Longrightarrow> nonempty_statuses statuses = []"
  by (induction statuses) (simp_all add: nonempty_statuses_def)

lemma nonempty_statuses_idem: "nonempty_statuses (nonempty_statuses statuses) = nonempty_statuses statuses"
  by (simp add: nonempty_statuses_def)

text \<open>C6. Empty categories are omitted from the report: a status whose entry set is
  empty adds no line (neither its heading nor an entry), a block of a record type whose
  statuses are all empty adds no line at all, and the report of a diff is the report of
  the diff with its empty categories taken out.\<close>

theorem print_diff_omits_empty:
  "print_statuses ln printed ((status, []) # rest) = print_statuses ln printed rest
   \<and> (list_all (\<lambda>sn. snd sn = []) statuses \<longrightarrow>
        print_statuses ln printed statuses = []
        \<and> print_diff ((rec, statuses) # others) = print_diff others)
   \<and> print_diff d = print_diff (map (\<lambda>(rec, statuses). (rec, nonempty_statuses statuses)) d)"
proof (intro conjI impI)
  show "print_statuses ln printed ((status, []) # rest) = print_statuses ln printed rest"
    by simp
next
  assume "list_all (\<lambda>sn. snd sn = []) statuses"
  then have e: "nonempty_statuses statuses = []"
    by (rule nonempty_statuses_all_empty)
  show "print_statuses ln printed statuses = []"
    by (simp add: print_statuses_nonempty e)
  show "print_diff ((rec, statuses) # others) = print_diff others"
    by (simp add: print_statuses_nonempty e)
next
  show "print_diff d = print_diff (map (\<lambda>(rec, statuses). (rec, nonempty_statuses statuses)) d)"
  proof (induction d rule: print_diff.induct)
    case 1
    show ?case by simp
  next
    case (2 rec statuses rest)
    have "print_statuses (lname rec) False statuses =
        print_statuses (lname rec) False (nonempty_statuses statuses)"
      by (simp add: print_statuses_nonempty [of _ _ statuses]
          print_statuses_nonempty [of _ _ "nonempty_statuses statuses"] nonempty_statuses_idem)
    with 2 show ?case by simp
  qed
qed

text \<open>A block with two empty categories prints nothing.\<close>

theorem print_diff_omits_empty_witness:
  "list_all (\<lambda>sn. snd sn = []) [(''Added'', []), (''Removed'', [])]
   \<and> print_diff [(''LEVI'', [(''Added'', []), (''Removed'', [])])] = []
   \<and> print_statuses ''Leveled Creatures'' False [(''Removed'', [])] = []"
proof -
  have h: "list_all (\<lambda>sn. snd sn = []) [(''Added'', []), (''Removed'', [])]"
    by simp
  have n: "print_diff [] = []"
    by simp
  have m: "print_statuses ''Leveled Creatures'' False [] = []"
    by simp
  from print_diff_omits_empty [of "''Leveled Creatures''" False "''Removed''" "[]"
      "[(''Added'', []), (''Removed'', [])]" "''LEVI''" "[]" "[]"] h n m
  show ?thesis by simp
qed



section \<open>Properties of the configuration commands\<close>

text \<open>C9. For a plugin that \<^verbatim>\<open>find_plugin\<close> finds, the two commands treat a redundant
  request differently: \<^verbatim>\<open>enable_plugin\<close> on an enabled plugin prints a line and exits
  with status 1, without \<^verbatim>\<open>write()\<close>; \<^verbatim>\<open>disable_plugin\<close> on a disabled plugin prints
  its line (the text says ``already enabled'') and goes on: it calls
  \<^verbatim>\<open>plugin.disable()\<close>, writes the configuration and returns.\<close>

theorem enable_disable_asymmetric:
  assumes "find_plugin env (ConfigFile env (get_full_path env omw_cfg)) plugin_name = Some plugin"
  shows "(is_enabled plugin \<longrightarrow>
            enable_plugin env omw_cfg plugin_name =
              ([Print (''Plugin '' @ plugin_name @ '' is already enabled.'')], SystemExit 1)
            \<and> ConfigWrite \<notin> set (fst (enable_plugin env omw_cfg plugin_name)))
       \<and> (\<not> is_enabled plugin \<longrightarrow>
            disable_plugin env omw_cfg plugin_name =
              ([Print (''Plugin '' @ plugin_name @ '' is already enabled.''),
                Print (''Disabling '' @ plugin_name),
                PluginDisable (get_name plugin),
                ConfigWrite],
               Returned (plugin_disable env plugin (ConfigFile env (get_full_path env omw_cfg)))))"
  using assms by (simp add: enable_plugin_def disable_plugin_def)

text \<open>In the small installation \<^verbatim>\<open>Morrowind.esm\<close> is enabled and \<^verbatim>\<open>Loot.esp\<close> is
  not.\<close>

theorem enable_disable_asymmetric_witness:
  "enable_plugin demo_cfg_env ''openmw.cfg'' ''Morrowind.esm'' =
     ([Print ''Plugin Morrowind.esm is already enabled.''], SystemExit 1)
   \<and> disable_plugin demo_cfg_env ''openmw.cfg'' ''Loot.esp'' =
     ([Print ''Plugin Loot.esp is already enabled.'', Print ''Disabling Loot.esp'',
       PluginDisable ''Loot.esp'', ConfigWrite],
      Returned [(''data'', ''/d''), (''content'', ''Morrowind.esm'')])"
proof -
  let ?cfg = "ConfigFile demo_cfg_env (get_full_path demo_cfg_env ''openmw.cfg'')"
  let ?m = "\<lparr>get_name = ''Morrowind.esm'', get_path = ''/d/Morrowind.esm'', is_enabled = True,
      get_order = 0\<rparr>"
  let ?l = "\<lparr>get_name = ''Loot.esp'', get_path = ''/d/Loot.esp'', is_enabled = False,
      get_order = 0\<rparr>"
  have m: "find_plugin demo_cfg_env ?cfg ''Morrowind.esm'' = Some ?m"
    by (simp add: demo_cfg_env_def demo_cfg_def)
  have l: "find_plugin demo_cfg_env ?cfg ''Loot.esp'' = Some ?l"
    by (simp add: demo_cfg_env_def demo_cfg_def)
  have d: "plugin_disable demo_cfg_env ?l ?cfg = [(''data'', ''/d''), (''content'', ''Morrowind.esm'')]"
    by (simp add: demo_cfg_env_def demo_cfg_def)
  from enable_disable_asymmetric [OF m]
  have 1: "enable_plugin demo_cfg_env ''openmw.cfg'' ''Morrowind.esm'' =
     ([Print ''Plugin Morrowind.esm is already enabled.''], SystemExit 1)"
    by simp
  from enable_disable_asymmetric [OF l] d
  have 2: "disable_plugin demo_cfg_env ''openmw.cfg'' ''Loot.esp'' =
     ([Print ''Plugin Loot.esp is already enabled.'', Print ''Disabling Loot.esp'',
       PluginDisable ''Loot.esp'', ConfigWrite],
      Returned [(''data'', ''/d''), (''content'', ''Morrowind.esm'')])"
    by simp
  from 1 2 show ?thesis
    by (rule conjI)
qed

lemma remove_bad_mods_all_exist:
  "list_all (\<lambda>entry. path_exists env (snd entry)) es \<Longrightarrow>
   remove_bad_mods env (cfg, bad_mods, effects) es = (cfg, bad_mods, effects)"
  by (induction es) simp_all

text \<open>C10. When every \<^verbatim>\<open>data\<close> entry of the configuration points to an existing path and
  \<^verbatim>\<open>get_orphaned_plugins\<close> reports nothing, \<^verbatim>\<open>clean_mods\<close> prints its two lines and
  returns: it removes no entry and does not call \<^verbatim>\<open>write()\<close>, the only call that
  stores the configuration file.\<close>

theorem clean_mods_no_write:
  assumes "list_all (\<lambda>entry. path_exists env (snd entry))
             (find_key env (ConfigFile env (get_full_path env omw_cfg)) ''data'')"
      and "get_orphaned_plugins env (ConfigFile env (get_full_path env omw_cfg)) = []"
  shows "clean_mods env omw_cfg =
           ([Print ''No invalid data entries found!'', Print ''No invalid content entries found!''],
            ConfigFile env (get_full_path env omw_cfg))
       \<and> ConfigWrite \<notin> set (fst (clean_mods env omw_cfg))"
  using assms by (simp add: clean_mods_def remove_bad_mods_all_exist)

text \<open>The configuration of the small installation is clean.\<close>

theorem clean_mods_no_write_witness:
  "list_all (\<lambda>entry. path_exists demo_cfg_env (snd entry))
     (find_key demo_cfg_env (ConfigFile demo_cfg_env (get_full_path demo_cfg_env ''openmw.cfg''))
        ''data'')
   \<and> get_orphaned_plugins demo_cfg_env
       (ConfigFile demo_cfg_env (get_full_path demo_cfg_env ''openmw.cfg'')) = []
   \<and> ConfigWrite \<notin> set (fst (clean_mods demo_cfg_env ''openmw.cfg''))"
proof -
  have h1: "list_all (\<lambda>entry. path_exists demo_cfg_env (snd entry))
     (find_key demo_cfg_env (ConfigFile demo_cfg_env (get_full_path demo_cfg_env ''openmw.cfg''))
        ''data'')"
    by (simp add: demo_cfg_env_def demo_cfg_def)
  have h2: "get_orphaned_plugins demo_cfg_env
       (ConfigFile demo_cfg_env (get_full_path demo_cfg_env ''openmw.cfg'')) = []"
    by (simp add: demo_cfg_env_def)
  from clean_mods_no_write [OF h1 h2]
  have "ConfigWrite \<notin> set (fst (clean_mods demo_cfg_env ''openmw.cfg''))"
    by (rule conjunct2)
  with h1 h2 show ?thesis
    by blast
qed

section \<open>Properties of the codec\<close>

lemma entry_le_iff: "entry_le a b = (a \<le> b)"
  by (auto simp: entry_le_def less_eq_prod_def)

lemma sorted_wrt_entry_le_sort: "sorted_wrt entry_le (sort es)"
proof -
  have "entry_le = (\<le>)"
    by (simp add: fun_eq_iff entry_le_iff)
  then show ?thesis
    by simp
qed

lemma sort_eq_of_set_eq:
  fixes es :: "Entry list"
  assumes "distinct es" and "distinct fs" and "set es = set fs"
  shows "sort es = sort fs" and "length es = length fs"
proof -
  show "sort es = sort fs"
    using assms by (intro sorted_distinct_set_unique) simp_all
  show "length es = length fs"
    using assms by (metis distinct_card)
qed

lemma decode_encode:
  assumes "list_all (\<lambda>e. valid_level max_level (snd e)) (entries l)"
  shows "decode max_level (encode l) = Inr (l\<lparr>entries := sort (entries l)\<rparr>)"
proof -
  have "list_all (\<lambda>e. valid_level max_level (snd e)) (sort (entries l))"
    using assms by (simp add: list_all_iff)
  then show ?thesis
    by (simp add: decode_def encode_def)
qed

text \<open>C4. For a leveled list whose levels are in the valid range, decoding the encoded
  list succeeds and gives a list with the same Entry set, whatever the order of the
  entries was, and encoding that list again gives the same payload; the encoded entries
  are sorted by reference identifier, then level; and two lists without duplicate
  entries that differ only in the order of their entries encode to the same payload.\<close>

theorem encode_decode_canonical:
  assumes "list_all (\<lambda>e. valid_level max_level (snd e)) (entries l)"
  shows "(\<exists>l'. decode max_level (encode l) = Inr l'
            \<and> set (entries l') = set (entries l)
            \<and> encode l' = encode l)
       \<and> sorted_wrt entry_le (payload_entries (encode l))
       \<and> (distinct (entries l) \<and> distinct es \<and> set es = set (entries l) \<longrightarrow>
            encode (l\<lparr>entries := es\<rparr>) = encode l)"
proof (intro conjI impI)
  have "set (entries (l\<lparr>entries := sort (entries l)\<rparr>)) = set (entries l)"
    by simp
  moreover have "encode (l\<lparr>entries := sort (entries l)\<rparr>) = encode l"
    by (simp add: encode_def sorted_sort_id)
  ultimately show "\<exists>l'. decode max_level (encode l) = Inr l'
            \<and> set (entries l') = set (entries l) \<and> encode l' = encode l"
    using decode_encode [OF assms] by blast
  show "sorted_wrt entry_le (payload_entries (encode l))"
    by (simp add: encode_def sorted_wrt_entry_le_sort)
next
  assume "distinct (entries l) \<and> distinct es \<and> set es = set (entries l)"
  then have "sort es = sort (entries l)" and "length es = length (entries l)"
    using sort_eq_of_set_eq [of es "entries l"] by simp_all
  then show "encode (l\<lparr>entries := es\<rparr>) = encode l"
    by (simp add: encode_def)
qed

text \<open>A list of three entries in two orders.\<close>

theorem encode_decode_canonical_witness:
  "list_all (\<lambda>e. valid_level 100 (snd e)) (entries demo_list)
   \<and> distinct (entries demo_list)
   \<and> payload_entries (encode demo_list) = [(''ratA'', 1), (''ratA'', 3), (''ratB'', 2)]
   \<and> encode demo_list' = encode demo_list"
proof -
  have h: "list_all (\<lambda>e. valid_level 100 (snd e)) (entries demo_list)"
    by code_simp
  have d: "distinct (entries demo_list)"
    by code_simp
  have d': "distinct (entries demo_list')"
    by code_simp
  have s: "set (entries demo_list') = set (entries demo_list)"
    by (auto simp: demo_list'_def demo_list_def)
  have p: "payload_entries (encode demo_list) = [(''ratA'', 1), (''ratA'', 3), (''ratB'', 2)]"
    by code_simp
  have u: "demo_list\<lparr>entries := entries demo_list'\<rparr> = demo_list'"
    by (simp add: demo_list'_def)
  from encode_decode_canonical [OF h, of "entries demo_list'"] d d' s
  have "encode (demo_list\<lparr>entries := entries demo_list'\<rparr>) = encode demo_list"
    by blast
  with u have "encode demo_list' = encode demo_list"
    by simp
  with h d p show ?thesis
    by blast
qed

end
